theory Spec2Isabelle
  imports Complex_Main "HOL-Library.Word"
begin

section \<open>PacketDelay.cpp: the inter-packet delay search\<close>

text \<open>
  A shallow embedding of the delay search of \<^verbatim>\<open>src/C++/PacketDelay.cpp\<close>.

  Numbers. \<^verbatim>\<open>MIL_DOUBLE\<close> values are modelled by real numbers with exact arithmetic:
  rounding, infinities and NaN of IEEE-754 doubles are outside the model.
  \<^verbatim>\<open>MIL_UINT64\<close> and \<^verbatim>\<open>MIL_UINT32\<close> are 64 and 32 bit words. \<^verbatim>\<open>MIL_INT\<close> is a signed
  integer of 64 bits (on a 64 bit build); it is modelled by \<open>int\<close>: the only arithmetic
  on it is the increment of \<open>EqualityCounter\<close>, which starts at 0 and stops the loop at 3,
  and the tick values it holds come from a \<^verbatim>\<open>MIL_UINT32\<close>.

  The camera. What the program reads from the digitizer (the reference frame rate, the
  theoretical delay, the frame rate obtained in each iteration) is an input of the
  model; the value it writes with \<^verbatim>\<open>M_GC_INTER_PACKET_DELAY\<close> is a field of the state.
  Printing and \<^verbatim>\<open>MosSleep\<close> are left out.
\<close>

type_synonym MIL_DOUBLE = real
type_synonym MIL_INT = int
type_synonym MIL_UINT64 = "64 word"
type_synonym MIL_UINT32 = "32 word"

subsection \<open>The structs (lines 51-87)\<close>

record PacketDelayInfo =
  BaseFrameRate :: MIL_DOUBLE
  ProcessFrameRate :: MIL_DOUBLE
  DelayInSeconds :: MIL_DOUBLE
  TickFreq :: MIL_UINT64
  DelayTickVal :: MIL_INT
  ProcessFrameCount :: MIL_INT
  EqualityCounter :: MIL_INT
  Error :: bool

record PacketDelayResults =
  PixelFormats :: "string list"
  InterPacketDelayInTicks :: "MIL_INT list"
  InterPacketDelayInSec :: "MIL_DOUBLE list"
  ReferenceFrameRate :: "MIL_DOUBLE list"
  ObtainedFrameRate :: "MIL_DOUBLE list"
  Selection :: nat

text \<open>
  Behaviour that C++ leaves undefined is a value of the model: the conversion of a
  double whose truncation the 32 bit unsigned type cannot hold, and a vector indexed
  past its size.
\<close>

datatype fault = ConversionOutOfRange | IndexOutOfRange

text \<open>\<^verbatim>\<open>memset(&PktInfo, 0, sizeof(PacketDelayInfo))\<close> (line 167), which is also what the
  constructor of the struct leaves.\<close>

definition zero_PacketDelayInfo :: PacketDelayInfo where
  "zero_PacketDelayInfo =
     \<lparr>BaseFrameRate = 0, ProcessFrameRate = 0, DelayInSeconds = 0, TickFreq = 0,
      DelayTickVal = 0, ProcessFrameCount = 0, EqualityCounter = 0, Error = False\<rparr>"

subsection \<open>IsEqual (lines 98-104)\<close>

definition IsEqual :: "MIL_DOUBLE \<Rightarrow> MIL_DOUBLE \<Rightarrow> bool" where
  "IsEqual A B = (if (A + 0.1) \<ge> B \<and> (A - 0.1) \<le> B then True else False)"

subsection \<open>The conversion of seconds to ticks (lines 370, 430, 437, 446)\<close>

text \<open>A cast of a double to an integer type drops the fraction (it truncates toward
  zero).\<close>

definition truncate_toward_zero :: "real \<Rightarrow> int" where
  "truncate_toward_zero x = (if 0 \<le> x then \<lfloor>x\<rfloor> else \<lceil>x\<rceil>)"

text \<open>\<^verbatim>\<open>(MIL_UINT32)x\<close> for a double \<open>x\<close>: defined when the truncated value is one of
  \<open>0 .. 2^32 - 1\<close>, that is when \<open>-1 < x < 2^32\<close>.\<close>

definition to_MIL_UINT32 :: "MIL_DOUBLE \<Rightarrow> MIL_UINT32 option" where
  "to_MIL_UINT32 x =
     (if - 1 < x \<and> x < 2 ^ 32 then Some (word_of_int (truncate_toward_zero x)) else None)"

text \<open>The right-hand side \<^verbatim>\<open>(MIL_UINT32)(Info.DelayInSeconds * Info.TickFreq)\<close>, which the
  source writes out at each of the four places, read as the \<^verbatim>\<open>MIL_INT\<close> it is assigned
  to. The 64 bit tick frequency is converted to a double for the product.\<close>

definition DelayInTicks :: "PacketDelayInfo \<Rightarrow> MIL_INT option" where
  "DelayInTicks I =
     map_option uint (to_MIL_UINT32 (DelayInSeconds I * real (unat (TickFreq I))))"

subsection \<open>Writing an element of a vector\<close>

definition vector_store :: "'a list \<Rightarrow> nat \<Rightarrow> 'a \<Rightarrow> fault + 'a list" where
  "vector_store v i x = (if i < length v then Inr (v[i := x]) else Inl IndexOutOfRange)"

subsection \<open>EnumeratePixelFormats: the initial results (lines 222-225)\<close>

text \<open>The four \<^verbatim>\<open>assign(Count, 0)\<close> calls; the enumeration of the formats and the
  selection by the user are input and output with the camera and the console.\<close>

definition assign_Results :: "nat \<Rightarrow> PacketDelayResults \<Rightarrow> PacketDelayResults" where
  "assign_Results Count R =
     R\<lparr>InterPacketDelayInTicks := replicate Count 0,
       InterPacketDelayInSec := replicate Count 0,
       ReferenceFrameRate := replicate Count 0,
       ObtainedFrameRate := replicate Count 0\<rparr>"

subsection \<open>AcquireReferenceFrameRate (lines 348-371)\<close>

text \<open>The state of one run: the info struct, the results, and the inter-packet delay
  register of the camera.\<close>

record run_state =
  Info :: PacketDelayInfo
  Results :: PacketDelayResults
  InterPacketDelay :: MIL_INT

text \<open>\<open>frame_rate\<close> is what \<^verbatim>\<open>M_PROCESS_FRAME_RATE\<close> returns after the acquisition with
  delay 0, \<open>theoretical\<close> what \<^verbatim>\<open>M_GC_THEORETICAL_INTER_PACKET_DELAY\<close> returns.\<close>

definition AcquireReferenceFrameRate ::
  "MIL_DOUBLE \<Rightarrow> MIL_DOUBLE \<Rightarrow> run_state \<Rightarrow> fault + run_state" where
  "AcquireReferenceFrameRate frame_rate theoretical s =
     (let s1 = s\<lparr>InterPacketDelay := 0\<rparr>;
          I1 = (Info s1)\<lparr>BaseFrameRate := frame_rate\<rparr>
      in case vector_store (ReferenceFrameRate (Results s1)) (Selection (Results s1))
                (BaseFrameRate I1) of
           Inl f \<Rightarrow> Inl f
         | Inr v \<Rightarrow>
             (let R1 = (Results s1)\<lparr>ReferenceFrameRate := v\<rparr>;
                  I2 = I1\<lparr>DelayInSeconds := theoretical\<rparr>
              in case DelayInTicks I2 of
                   None \<Rightarrow> Inl ConversionOutOfRange
                 | Some t \<Rightarrow>
                     Inr (s1\<lparr>Info := I2\<lparr>DelayTickVal := t\<rparr>, Results := R1\<rparr>)))"

subsection \<open>FindInterPacketDelay (lines 376-470)\<close>

text \<open>The branch an iteration of the loop takes: the three of a matching frame rate
  (lines 416, 422, 433) and the three of a mismatching one (lines 447, 453, and neither).
  A label of the model; the source tells them apart by its control flow only.\<close>

datatype branch =
  ZeroTicksAtMatch | OptimalFound | ReduceAfterMatch |
  ZeroTicksAfterMismatch | NonPositiveAfterMismatch | ReduceAfterMismatch

text \<open>The state of the loop: the info struct, the register of the camera and the local
  variable \<open>Done\<close>.\<close>

record loop_state =
  LInfo :: PacketDelayInfo
  Register :: MIL_INT
  Done :: bool

text \<open>One pass through the body of the \<^verbatim>\<open>while\<close> loop (lines 386-460); \<open>rate\<close> is the
  frame rate the camera reports for this acquisition (line 395).\<close>

definition loop_body :: "loop_state \<Rightarrow> MIL_DOUBLE \<Rightarrow> fault + (loop_state \<times> branch)" where
  "loop_body s rate =
     (let s1 = s\<lparr>Register := DelayTickVal (LInfo s)\<rparr>;
          I1 = (LInfo s1)\<lparr>ProcessFrameRate := rate\<rparr>
      in if IsEqual (BaseFrameRate I1) (ProcessFrameRate I1) then
           (let I2 = I1\<lparr>EqualityCounter := EqualityCounter I1 + 1\<rparr>
            in if DelayTickVal I2 = 0 then
                 Inr (s1\<lparr>LInfo := I2\<lparr>DelayInSeconds := 0, Error := True\<rparr>, Done := True\<rparr>,
                      ZeroTicksAtMatch)
               else if EqualityCounter I2 = 3 then
                 (let I3 = I2\<lparr>DelayInSeconds :=
                               DelayInSeconds I2 - (DelayInSeconds I2 * 15 / 100)\<rparr>;
                      I4 = (if DelayInSeconds I3 \<le> 0 then I3\<lparr>DelayInSeconds := 0\<rparr> else I3)
                  in case DelayInTicks I4 of
                       None \<Rightarrow> Inl ConversionOutOfRange
                     | Some t \<Rightarrow>
                         Inr (s1\<lparr>LInfo := I4\<lparr>DelayTickVal := t\<rparr>, Register := t,
                                 Done := True\<rparr>, OptimalFound))
               else
                 (let I3 = I2\<lparr>DelayInSeconds := DelayInSeconds I2 - (DelayInSeconds I2 / 50)\<rparr>
                  in case DelayInTicks I3 of
                       None \<Rightarrow> Inl ConversionOutOfRange
                     | Some t \<Rightarrow> Inr (s1\<lparr>LInfo := I3\<lparr>DelayTickVal := t\<rparr>\<rparr>, ReduceAfterMatch)))
         else
           (let I2 = I1\<lparr>EqualityCounter := 0\<rparr>;
                I3 = I2\<lparr>DelayInSeconds := DelayInSeconds I2 - (DelayInSeconds I2 / 10)\<rparr>
            in case DelayInTicks I3 of
                 None \<Rightarrow> Inl ConversionOutOfRange
               | Some t \<Rightarrow>
                   (let I4 = I3\<lparr>DelayTickVal := t\<rparr>
                    in if DelayTickVal I4 = 0 then
                         Inr (s1\<lparr>LInfo := I4\<lparr>DelayInSeconds := 0, Error := True\<rparr>,
                                 Done := True\<rparr>, ZeroTicksAfterMismatch)
                       else if DelayInSeconds I4 \<le> 0 then
                         Inr (s1\<lparr>LInfo := I4\<lparr>DelayInSeconds := 0\<rparr>, Done := True\<rparr>,
                              NonPositiveAfterMismatch)
                       else Inr (s1\<lparr>LInfo := I4\<rparr>, ReduceAfterMismatch))))"

text \<open>The loop \<^verbatim>\<open>while(!Done)\<close>, run on the frame rates the camera reports, one for each
  iteration. \<open>Stopped s b rest\<close>: the loop has ended in state \<open>s\<close>, its last iteration
  took branch \<open>b\<close>, and the rates \<open>rest\<close> were not asked for. \<open>Running s\<close>: every given
  rate is used and the loop is still going. \<open>Undefined f\<close>: undefined behaviour.
  The loop is entered with \<open>Done\<close> false (line 378) and only the body changes \<open>Done\<close>, so
  the test at the top of the loop is made here after each pass through the body.\<close>

datatype loop_result =
  Stopped loop_state branch "MIL_DOUBLE list" | Running loop_state | Undefined fault

fun search_loop :: "loop_state \<Rightarrow> MIL_DOUBLE list \<Rightarrow> loop_result" where
  "search_loop s [] = Running s"
| "search_loop s (rate # rates) =
     (case loop_body s rate of
        Inl f \<Rightarrow> Undefined f
      | Inr (s', b) \<Rightarrow> if Done s' then Stopped s' b rates else search_loop s' rates)"

text \<open>After the loop the solution is stored when \<open>Error\<close> is false (lines 464-469).\<close>

definition store_solution :: "PacketDelayInfo \<Rightarrow> PacketDelayResults \<Rightarrow> fault + PacketDelayResults"
  where
  "store_solution I R =
     (if Error I = False then
        (case vector_store (InterPacketDelayInTicks R) (Selection R) (DelayTickVal I) of
           Inl f \<Rightarrow> Inl f
         | Inr ticks \<Rightarrow>
        (case vector_store (InterPacketDelayInSec R) (Selection R) (DelayInSeconds I) of
           Inl f \<Rightarrow> Inl f
         | Inr secs \<Rightarrow>
        (case vector_store (ObtainedFrameRate R) (Selection R) (ProcessFrameRate I) of
           Inl f \<Rightarrow> Inl f
         | Inr rates \<Rightarrow>
             Inr (R\<lparr>InterPacketDelayInTicks := ticks, InterPacketDelayInSec := secs,
                    ObtainedFrameRate := rates\<rparr>))))
      else Inr R)"

text \<open>The whole function. \<open>None\<close>: it has not returned on the rates given.\<close>

definition FindInterPacketDelay :: "MIL_DOUBLE list \<Rightarrow> run_state \<Rightarrow> (fault + run_state) option"
  where
  "FindInterPacketDelay rates s =
     (case search_loop \<lparr>LInfo = Info s, Register = InterPacketDelay s, Done = False\<rparr> rates of
        Undefined f \<Rightarrow> Some (Inl f)
      | Running l \<Rightarrow> None
      | Stopped l b rest \<Rightarrow>
          (case store_solution (LInfo l) (Results s) of
             Inl f \<Rightarrow> Some (Inl f)
           | Inr R \<Rightarrow> Some (Inr \<lparr>Info = LInfo l, Results = R, InterPacketDelay = Register l\<rparr>)))"

subsection \<open>One pixel format (lines 167-185 of MosMain)\<close>

text \<open>The body of the loop over the selected formats, as far as it touches the info
  struct and the results: the struct is zeroed, the tick frequency read, the reference
  frame rate acquired, the delay searched. \<open>Selection\<close> is advanced by the caller.\<close>

definition calculate_format ::
  "MIL_UINT64 \<Rightarrow> MIL_DOUBLE \<Rightarrow> MIL_DOUBLE \<Rightarrow> MIL_DOUBLE list \<Rightarrow> run_state \<Rightarrow>
     (fault + run_state) option" where
  "calculate_format tick_freq frame_rate theoretical rates s =
     (let s1 = s\<lparr>Info := zero_PacketDelayInfo\<lparr>TickFreq := tick_freq\<rparr>\<rparr>
      in case AcquireReferenceFrameRate frame_rate theoretical s1 of
           Inl f \<Rightarrow> Some (Inl f)
         | Inr s2 \<Rightarrow> FindInterPacketDelay rates s2)"

subsection \<open>The equality streak of the specification\<close>


subsection \<open>States for the examples\<close>

text \<open>A loop state of a camera with a 1 MHz tick counter and a reference frame rate of
  30: delay \<open>d\<close> seconds, \<open>t\<close> ticks, \<open>c\<close> matches in a row so far.\<close>

definition probe :: "MIL_DOUBLE \<Rightarrow> MIL_INT \<Rightarrow> MIL_INT \<Rightarrow> loop_state" where
  "probe d t c =
     \<lparr>LInfo = \<lparr>BaseFrameRate = 30, ProcessFrameRate = 0, DelayInSeconds = d,
               TickFreq = 1000000, DelayTickVal = t, ProcessFrameCount = 0,
               EqualityCounter = c, Error = False\<rparr>,
      Register = 0, Done = False\<rparr>"

text \<open>The state a run of the loop has reached, when it is defined.\<close>

fun state_of :: "loop_result \<Rightarrow> loop_state option" where
  "state_of (Stopped s b rest) = Some s"
| "state_of (Running s) = Some s"
| "state_of (Undefined f) = None"

text \<open>A camera with two pixel formats, its results as \<open>EnumeratePixelFormats\<close> leaves them,
  the first format selected, and tick frequency \<open>f\<close>.\<close>

definition camera :: "MIL_UINT64 \<Rightarrow> run_state" where
  "camera f =
     \<lparr>Info = zero_PacketDelayInfo\<lparr>TickFreq := f\<rparr>,
      Results = assign_Results 2
        \<lparr>PixelFormats = [''Mono8'', ''BayerRG8''], InterPacketDelayInTicks = [],
         InterPacketDelayInSec = [], ReferenceFrameRate = [], ObtainedFrameRate = [],
         Selection = 0\<rparr>,
      InterPacketDelay = 0\<rparr>"

text \<open>The same camera after \<open>AcquireReferenceFrameRate\<close> has measured 30 frames per
  second, with a theoretical delay of \<open>d\<close> seconds, that is \<open>t\<close> ticks.\<close>

definition measured_camera :: "MIL_DOUBLE \<Rightarrow> MIL_INT \<Rightarrow> run_state" where
  "measured_camera d t =
     \<lparr>Info = LInfo (probe d t 0),
      Results = (Results (camera 1000000))\<lparr>ReferenceFrameRate := [30, 0]\<rparr>,
      InterPacketDelay = 0\<rparr>"

section \<open>Properties\<close>

subsection \<open>Evaluating the examples\<close>

lemma replicate_two: "replicate 2 x = [x, x]"
  by (simp add: numeral_2_eq_2)

lemmas run_defs = replicate_two
  probe_def camera_def measured_camera_def assign_Results_def zero_PacketDelayInfo_def
  calculate_format_def AcquireReferenceFrameRate_def FindInterPacketDelay_def
  store_solution_def vector_store_def loop_body_def IsEqual_def DelayInTicks_def
  to_MIL_UINT32_def truncate_toward_zero_def Let_def

lemma acquire_example:
  "AcquireReferenceFrameRate 30 0.0005 (camera 1000000) = Inr (measured_camera 0.0005 500)"
  by (simp add: run_defs)

subsection \<open>The conversion\<close>

lemma truncate_toward_zero_bounds:
  assumes "- 1 < x" and "x < 2 ^ 32"
  shows "0 \<le> truncate_toward_zero x" and "truncate_toward_zero x < 2 ^ 32"
proof -
  show "0 \<le> truncate_toward_zero x"
    using assms(1) by (simp add: truncate_toward_zero_def)
  have "\<lfloor>x\<rfloor> < 2 ^ 32" using assms(2) by (simp add: floor_less_iff)
  moreover have "\<lceil>x\<rceil> < 2 ^ 32" if "x < 0"
  proof -
    from that have "\<lceil>x\<rceil> \<le> 0" by (simp add: ceiling_le_zero)
    also have "(0::int) < 2 ^ 32" by simp
    finally show ?thesis .
  qed
  ultimately show "truncate_toward_zero x < 2 ^ 32"
    by (simp add: truncate_toward_zero_def)
qed

lemma to_MIL_UINT32_Some_iff:
  "to_MIL_UINT32 x = Some w \<longleftrightarrow>
     - 1 < x \<and> x < 2 ^ 32 \<and> w = word_of_int (truncate_toward_zero x)"
  by (auto simp: to_MIL_UINT32_def)

lemma uint_to_MIL_UINT32:
  assumes "to_MIL_UINT32 x = Some w"
  shows "uint w = truncate_toward_zero x"
proof -
  from assms have b: "- 1 < x" "x < 2 ^ 32" and w: "w = word_of_int (truncate_toward_zero x)"
    by (simp_all add: to_MIL_UINT32_Some_iff)
  have "uint w = take_bit 32 (truncate_toward_zero x)"
    by (simp add: w uint_word_of_int_eq)
  also have "\<dots> = truncate_toward_zero x"
    using truncate_toward_zero_bounds [OF b] by (simp add: take_bit_int_eq_self)
  finally show ?thesis .
qed

lemma DelayInTicks_Some_iff:
  "DelayInTicks I = Some t \<longleftrightarrow>
     - 1 < DelayInSeconds I * real (unat (TickFreq I)) \<and>
     DelayInSeconds I * real (unat (TickFreq I)) < 2 ^ 32 \<and>
     t = truncate_toward_zero (DelayInSeconds I * real (unat (TickFreq I)))"
  (is "?L \<longleftrightarrow> ?R")
proof
  assume ?L
  then obtain w where w: "to_MIL_UINT32 (DelayInSeconds I * real (unat (TickFreq I))) = Some w"
    and t: "t = uint w"
    by (auto simp: DelayInTicks_def)
  from w t show ?R
    by (simp add: uint_to_MIL_UINT32 [OF w]) (simp add: to_MIL_UINT32_Some_iff)
next
  assume r: ?R
  then have "to_MIL_UINT32 (DelayInSeconds I * real (unat (TickFreq I))) =
      Some (word_of_int (truncate_toward_zero (DelayInSeconds I * real (unat (TickFreq I)))))"
    by (simp add: to_MIL_UINT32_Some_iff)
  then show ?L
    using r uint_to_MIL_UINT32 by (fastforce simp: DelayInTicks_def)
qed


subsection \<open>The branches of the loop body\<close>

lemma loop_body_ZeroTicksAtMatch:
  assumes "IsEqual (BaseFrameRate (LInfo s)) rate" and "DelayTickVal (LInfo s) = 0"
  shows "loop_body s rate =
    Inr (s\<lparr>LInfo := (LInfo s)\<lparr>ProcessFrameRate := rate,
                 EqualityCounter := EqualityCounter (LInfo s) + 1,
                 DelayInSeconds := 0, Error := True\<rparr>,
            Register := DelayTickVal (LInfo s), Done := True\<rparr>, ZeroTicksAtMatch)"
  using assms by (simp add: loop_body_def Let_def)

lemma loop_body_OptimalFound:
  assumes "IsEqual (BaseFrameRate (LInfo s)) rate" and "DelayTickVal (LInfo s) \<noteq> 0"
    and "EqualityCounter (LInfo s) + 1 = 3"
    and "DelayInTicks ((LInfo s)\<lparr>DelayInSeconds :=
           max 0 (DelayInSeconds (LInfo s) - DelayInSeconds (LInfo s) * 15 / 100)\<rparr>) = Some t"
  shows "loop_body s rate =
    Inr (s\<lparr>LInfo := (LInfo s)\<lparr>ProcessFrameRate := rate,
                 EqualityCounter := 3,
                 DelayInSeconds :=
                   max 0 (DelayInSeconds (LInfo s) - DelayInSeconds (LInfo s) * 15 / 100),
                 DelayTickVal := t\<rparr>,
            Register := t, Done := True\<rparr>, OptimalFound)"
  using assms
  by (auto simp add: loop_body_def Let_def DelayInTicks_def max_def split: if_splits)

lemma loop_body_ReduceAfterMatch:
  assumes "IsEqual (BaseFrameRate (LInfo s)) rate" and "DelayTickVal (LInfo s) \<noteq> 0"
    and "EqualityCounter (LInfo s) + 1 \<noteq> 3"
    and "DelayInTicks ((LInfo s)\<lparr>DelayInSeconds :=
           DelayInSeconds (LInfo s) - DelayInSeconds (LInfo s) / 50\<rparr>) = Some t"
  shows "loop_body s rate =
    Inr (s\<lparr>LInfo := (LInfo s)\<lparr>ProcessFrameRate := rate,
                 EqualityCounter := EqualityCounter (LInfo s) + 1,
                 DelayInSeconds := DelayInSeconds (LInfo s) - DelayInSeconds (LInfo s) / 50,
                 DelayTickVal := t\<rparr>,
            Register := DelayTickVal (LInfo s)\<rparr>, ReduceAfterMatch)"
  using assms by (auto simp add: loop_body_def Let_def DelayInTicks_def)

lemma loop_body_mismatch:
  assumes "\<not> IsEqual (BaseFrameRate (LInfo s)) rate"
    and "DelayInTicks ((LInfo s)\<lparr>DelayInSeconds :=
           DelayInSeconds (LInfo s) - DelayInSeconds (LInfo s) / 10\<rparr>) = Some t"
  shows "loop_body s rate =
    Inr (s\<lparr>LInfo := (LInfo s)\<lparr>ProcessFrameRate := rate,
                 EqualityCounter := 0,
                 DelayInSeconds :=
                   (if t = 0 \<or> DelayInSeconds (LInfo s) - DelayInSeconds (LInfo s) / 10 \<le> 0
                    then 0 else DelayInSeconds (LInfo s) - DelayInSeconds (LInfo s) / 10),
                 DelayTickVal := t,
                 Error := (if t = 0 then True else Error (LInfo s))\<rparr>,
            Register := DelayTickVal (LInfo s),
            Done := (if t = 0 \<or> DelayInSeconds (LInfo s) - DelayInSeconds (LInfo s) / 10 \<le> 0
                     then True else Done s)\<rparr>,
         if t = 0 then ZeroTicksAfterMismatch
         else if DelayInSeconds (LInfo s) - DelayInSeconds (LInfo s) / 10 \<le> 0
           then NonPositiveAfterMismatch else ReduceAfterMismatch)"
  using assms by (auto simp add: loop_body_def Let_def DelayInTicks_def)

text \<open>Every defined result of the body comes from one of the four.\<close>

lemma loop_body_cases:
  assumes "loop_body s rate = Inr (s', b)"
  obtains
    (ZeroAtMatch) "IsEqual (BaseFrameRate (LInfo s)) rate" "DelayTickVal (LInfo s) = 0"
      "b = ZeroTicksAtMatch"
  | (Optimal) t where "IsEqual (BaseFrameRate (LInfo s)) rate" "DelayTickVal (LInfo s) \<noteq> 0"
      "EqualityCounter (LInfo s) + 1 = 3" "b = OptimalFound"
      "DelayInTicks ((LInfo s)\<lparr>DelayInSeconds :=
           max 0 (DelayInSeconds (LInfo s) - DelayInSeconds (LInfo s) * 15 / 100)\<rparr>) = Some t"
  | (Reduce) t where "IsEqual (BaseFrameRate (LInfo s)) rate" "DelayTickVal (LInfo s) \<noteq> 0"
      "EqualityCounter (LInfo s) + 1 \<noteq> 3" "b = ReduceAfterMatch"
      "DelayInTicks ((LInfo s)\<lparr>DelayInSeconds :=
           DelayInSeconds (LInfo s) - DelayInSeconds (LInfo s) / 50\<rparr>) = Some t"
  | (Mismatch) t where "\<not> IsEqual (BaseFrameRate (LInfo s)) rate"
      "DelayInTicks ((LInfo s)\<lparr>DelayInSeconds :=
           DelayInSeconds (LInfo s) - DelayInSeconds (LInfo s) / 10\<rparr>) = Some t"
      "b = ZeroTicksAfterMismatch \<or> b = NonPositiveAfterMismatch \<or> b = ReduceAfterMismatch"
proof (cases "IsEqual (BaseFrameRate (LInfo s)) rate")
  case True
  show ?thesis
  proof (cases "DelayTickVal (LInfo s) = 0")
    case z: True
    with True assms ZeroAtMatch show ?thesis
      by (simp add: loop_body_ZeroTicksAtMatch)
  next
    case nz: False
    show ?thesis
    proof (cases "EqualityCounter (LInfo s) + 1 = 3")
      case three: True
      with True nz assms Optimal show ?thesis
        by (auto simp add: loop_body_def Let_def DelayInTicks_def max_def
            split: option.splits if_splits)
    next
      case other: False
      with True nz assms Reduce show ?thesis
        by (auto simp add: loop_body_def Let_def DelayInTicks_def split: option.splits)
    qed
  qed
next
  case False
  with assms Mismatch show ?thesis
    by (auto simp add: loop_body_def Let_def DelayInTicks_def split: option.splits if_splits)
qed

subsection \<open>The approximate equality of frame rates\<close>


subsection \<open>A match at zero ticks\<close>

text \<open>
  C5. If the measured frame rate matches the reference while \<open>DelayTickVal\<close> is 0, the
  iteration sets \<open>Error\<close> and ends the loop, whatever the equality counter holds (also
  when this match is the third in a row).
\<close>

theorem zero_ticks_at_match_fails:
  assumes "IsEqual (BaseFrameRate (LInfo s)) rate" and "DelayTickVal (LInfo s) = 0"
  shows "\<exists>s'. loop_body s rate = Inr (s', ZeroTicksAtMatch) \<and>
           Error (LInfo s') \<and> Done s' \<and>
           EqualityCounter (LInfo s') = EqualityCounter (LInfo s) + 1 \<and>
           search_loop s (rate # rates) = Stopped s' ZeroTicksAtMatch rates"
  using assms by (simp add: loop_body_ZeroTicksAtMatch)

text \<open>The third match in a row, at zero ticks: the counter reaches 3 and the run fails.\<close>

theorem zero_ticks_at_match_fails_witness:
  "IsEqual (BaseFrameRate (LInfo (probe 0.000000989212 0 2))) 30 \<and>
   DelayTickVal (LInfo (probe 0.000000989212 0 2)) = 0 \<and>
   (\<exists>s'. loop_body (probe 0.000000989212 0 2) 30 = Inr (s', ZeroTicksAtMatch) \<and>
      Error (LInfo s') \<and> Done s' \<and> EqualityCounter (LInfo s') = 3 \<and>
      search_loop (probe 0.000000989212 0 2) [30, 31] = Stopped s' ZeroTicksAtMatch [31])"
proof -
  have m: "IsEqual (BaseFrameRate (LInfo (probe 0.000000989212 0 2))) 30"
    by (simp add: probe_def IsEqual_def)
  have z: "DelayTickVal (LInfo (probe 0.000000989212 0 2)) = 0"
    by (simp add: probe_def)
  have c: "EqualityCounter (LInfo (probe 0.000000989212 0 2)) + 1 = 3"
    by (simp add: probe_def)
  from zero_ticks_at_match_fails [OF m z, of "[31]"] m z c show ?thesis
    by auto
qed

subsection \<open>A mismatch\<close>



text \<open>
  C10. When a mismatching iteration is entered with a positive delay, the delay reduced
  by a tenth is still positive, so the iteration does not take the exit that stops
  without failure: it stops the loop only through the test for zero ticks, which
  comes first, and then marks the run failed.
\<close>

theorem nonpositive_stop_unreachable:
  assumes "0 < DelayInSeconds (LInfo s)"
    and "\<not> IsEqual (BaseFrameRate (LInfo s)) rate"
    and "loop_body s rate = Inr (s', b)"
  shows "0 < DelayInSeconds (LInfo s) - DelayInSeconds (LInfo s) / 10 \<and>
    b \<noteq> NonPositiveAfterMismatch \<and>
    (b = ZeroTicksAfterMismatch \<or> b = ReduceAfterMismatch) \<and>
    (b = ZeroTicksAfterMismatch) = (DelayTickVal (LInfo s') = 0) \<and>
    Done s' = (b = ZeroTicksAfterMismatch \<or> Done s) \<and>
    Error (LInfo s') = (b = ZeroTicksAfterMismatch \<or> Error (LInfo s))"
  using assms(3)
proof (cases rule: loop_body_cases)
  case (Mismatch t)
  from loop_body_mismatch [OF Mismatch(1,2)] assms show ?thesis
    by auto
qed (use assms(2) in simp_all)

text \<open>At one microsecond the reduced delay is below one tick: the run fails.\<close>

theorem nonpositive_stop_unreachable_witness:
  "0 < DelayInSeconds (LInfo (probe 0.000001 1 0)) \<and>
   \<not> IsEqual (BaseFrameRate (LInfo (probe 0.000001 1 0))) 25 \<and>
   (\<exists>s'. loop_body (probe 0.000001 1 0) 25 = Inr (s', ZeroTicksAfterMismatch) \<and>
      DelayTickVal (LInfo s') = 0 \<and> Done s' \<and> Error (LInfo s'))"
proof -
  have p: "0 < DelayInSeconds (LInfo (probe 0.000001 1 0))"
    by (simp add: probe_def)
  have m: "\<not> IsEqual (BaseFrameRate (LInfo (probe 0.000001 1 0))) 25"
    by (simp add: probe_def IsEqual_def)
  have t: "DelayInTicks ((LInfo (probe 0.000001 1 0))\<lparr>DelayInSeconds :=
      DelayInSeconds (LInfo (probe 0.000001 1 0)) -
      DelayInSeconds (LInfo (probe 0.000001 1 0)) / 10\<rparr>) = Some 0"
    by (simp add: probe_def DelayInTicks_def to_MIL_UINT32_def truncate_toward_zero_def)
  from loop_body_mismatch [OF m t] obtain s' where
    b: "loop_body (probe 0.000001 1 0) 25 = Inr (s', ZeroTicksAfterMismatch)"
    by simp
  from nonpositive_stop_unreachable [OF p m b] p m b show ?thesis
    by blast
qed

text \<open>While every conversion is defined, no iteration takes that exit at all: ticks other
  than 0 come from a product of at least 1, so from a positive delay.\<close>

lemma DelayInTicks_nonzero:
  assumes "DelayInTicks I = Some t" and "t \<noteq> 0"
  shows "1 \<le> DelayInSeconds I * real (unat (TickFreq I))"
proof (rule ccontr)
  let ?p = "DelayInSeconds I * real (unat (TickFreq I))"
  assume "\<not> 1 \<le> ?p"
  then have less: "?p < 1" by simp
  from assms(1) have lo: "- 1 < ?p" and t: "t = truncate_toward_zero ?p"
    by (simp_all add: DelayInTicks_Some_iff)
  have "truncate_toward_zero ?p = 0"
  proof (cases "0 \<le> ?p")
    case True
    with less have "\<lfloor>?p\<rfloor> = 0" by (simp add: floor_eq_iff)
    with True show ?thesis by (simp add: truncate_toward_zero_def)
  next
    case False
    with lo have "\<lceil>?p\<rceil> = 0" by (simp add: ceiling_eq_iff)
    with False show ?thesis by (simp add: truncate_toward_zero_def)
  qed
  with t assms(2) show False by simp
qed

lemma NonPositiveAfterMismatch_not_taken:
  assumes "loop_body s rate = Inr (s', b)"
  shows "b \<noteq> NonPositiveAfterMismatch"
  using assms
proof (cases rule: loop_body_cases)
  case (Mismatch t)
  let ?d = "DelayInSeconds (LInfo s) - DelayInSeconds (LInfo s) / 10"
  show ?thesis
  proof (cases "t = 0")
    case True
    with loop_body_mismatch [OF Mismatch(1,2)] assms show ?thesis by simp
  next
    case False
    from DelayInTicks_nonzero [OF Mismatch(2) False]
    have one: "1 \<le> ?d * real (unat (TickFreq (LInfo s)))" by simp
    have "0 < ?d"
    proof (rule ccontr)
      assume "\<not> 0 < ?d"
      then have "?d \<le> 0" by simp
      moreover have "0 \<le> real (unat (TickFreq (LInfo s)))" by (rule of_nat_0_le_iff)
      ultimately have "?d * real (unat (TickFreq (LInfo s))) \<le> 0"
        by (rule mult_nonpos_nonneg)
      with one show False by linarith
    qed
    with loop_body_mismatch [OF Mismatch(1,2)] assms False show ?thesis by simp
  qed
qed simp_all

subsection \<open>Seconds to ticks\<close>




lemma AcquireReferenceFrameRate_Inr:
  assumes "AcquireReferenceFrameRate frame_rate theoretical s = Inr s'"
  shows "\<exists>t. DelayInTicks ((Info s)\<lparr>DelayInSeconds := theoretical\<rparr>) = Some t \<and>
     Selection (Results s) < length (ReferenceFrameRate (Results s)) \<and>
     s' = \<lparr>Info = (Info s)\<lparr>BaseFrameRate := frame_rate, DelayInSeconds := theoretical,
                  DelayTickVal := t\<rparr>,
           Results = (Results s)\<lparr>ReferenceFrameRate :=
                  (ReferenceFrameRate (Results s))[Selection (Results s) := frame_rate]\<rparr>,
           InterPacketDelay = 0\<rparr>"
  using assms
  by (auto simp add: AcquireReferenceFrameRate_def Let_def vector_store_def DelayInTicks_def
      split: if_splits option.splits)





subsection \<open>The delay never grows\<close>

lemma search_loop_append:
  "search_loop s (xs @ ys) =
     (case search_loop s xs of
        Running s' \<Rightarrow> search_loop s' ys
      | Stopped s' b rest \<Rightarrow> Stopped s' b (rest @ ys)
      | Undefined f \<Rightarrow> Undefined f)"
proof (induction xs arbitrary: s)
  case Nil
  show ?case by simp
next
  case (Cons x xs)
  show ?case
  proof (cases "loop_body s x")
    case (Inl f)
    then show ?thesis by simp
  next
    case (Inr r)
    obtain s' b where r: "r = (s', b)" by (cases r)
    with Inr Cons.IH [of s'] show ?thesis by simp
  qed
qed

lemma loop_body_delay:
  assumes "0 \<le> DelayInSeconds (LInfo s)" and "loop_body s rate = Inr (s', b)"
  shows "0 \<le> DelayInSeconds (LInfo s') \<and>
    DelayInSeconds (LInfo s') \<le>
      (if b = ZeroTicksAtMatch then DelayInSeconds (LInfo s)
       else if b = OptimalFound
       then DelayInSeconds (LInfo s) - DelayInSeconds (LInfo s) * 15 / 100
       else if b = ReduceAfterMatch
       then DelayInSeconds (LInfo s) - DelayInSeconds (LInfo s) / 50
       else DelayInSeconds (LInfo s) - DelayInSeconds (LInfo s) / 10) \<and>
    (if b = ZeroTicksAtMatch then DelayInSeconds (LInfo s)
       else if b = OptimalFound
       then DelayInSeconds (LInfo s) - DelayInSeconds (LInfo s) * 15 / 100
       else if b = ReduceAfterMatch
       then DelayInSeconds (LInfo s) - DelayInSeconds (LInfo s) / 50
       else DelayInSeconds (LInfo s) - DelayInSeconds (LInfo s) / 10)
      \<le> DelayInSeconds (LInfo s)"
  using assms(2)
proof (cases rule: loop_body_cases)
  case ZeroAtMatch
  with loop_body_ZeroTicksAtMatch [OF ZeroAtMatch(1,2)] assms show ?thesis
    by auto
next
  case (Optimal t)
  with loop_body_OptimalFound [OF Optimal(1,2,3,5)] assms show ?thesis
    by (auto simp add: max_def)
next
  case (Reduce t)
  with loop_body_ReduceAfterMatch [OF Reduce(1,2,3,5)] assms show ?thesis
    by auto
next
  case (Mismatch t)
  with loop_body_mismatch [OF Mismatch(1,2)] assms show ?thesis
    by (auto split: if_splits)
qed

lemma loop_body_delay_le:
  assumes "0 \<le> DelayInSeconds (LInfo s)" and "loop_body s rate = Inr (s', b)"
  shows "0 \<le> DelayInSeconds (LInfo s') \<and> DelayInSeconds (LInfo s') \<le> DelayInSeconds (LInfo s)"
  using loop_body_delay [OF assms] by (meson order_trans)

lemma search_loop_delay:
  assumes "0 \<le> DelayInSeconds (LInfo s)" and "state_of (search_loop s rates) = Some s'"
  shows "0 \<le> DelayInSeconds (LInfo s') \<and> DelayInSeconds (LInfo s') \<le> DelayInSeconds (LInfo s)"
  using assms
proof (induction rates arbitrary: s)
  case Nil
  then show ?case by simp
next
  case (Cons rate rates)
  show ?case
  proof (cases "loop_body s rate")
    case (Inl f)
    with Cons.prems show ?thesis by simp
  next
    case (Inr r)
    obtain s1 b where r: "r = (s1, b)" by (cases r)
    from Inr r have body: "loop_body s rate = Inr (s1, b)" by simp
    from loop_body_delay_le [OF Cons.prems(1) body]
    have d1: "0 \<le> DelayInSeconds (LInfo s1)" "DelayInSeconds (LInfo s1) \<le> DelayInSeconds (LInfo s)"
      by simp_all
    show ?thesis
    proof (cases "Done s1")
      case True
      with Inr r Cons.prems(2) have "s' = s1" by simp
      with d1 show ?thesis by simp
    next
      case False
      with Inr r Cons.prems(2) have "state_of (search_loop s1 rates) = Some s'" by simp
      from Cons.IH [OF d1(1) this] d1(2) show ?thesis by simp
    qed
  qed
qed

text \<open>
  C8. From a non-negative delay, every update of an iteration leaves the delay at or
  below its value before (the reduction by a fiftieth, a tenth or 15 percent, and then
  the clamp or the assignment of 0.0), and the delay at a later point of a run is at
  most the delay at an earlier one.
\<close>

theorem delay_non_increasing:
  "(0 \<le> DelayInSeconds (LInfo l) \<and> loop_body l rate = Inr (l', b) \<longrightarrow>
      0 \<le> DelayInSeconds (LInfo l') \<and>
      DelayInSeconds (LInfo l') \<le>
        (if b = ZeroTicksAtMatch then DelayInSeconds (LInfo l)
         else if b = OptimalFound
         then DelayInSeconds (LInfo l) - DelayInSeconds (LInfo l) * 15 / 100
         else if b = ReduceAfterMatch
         then DelayInSeconds (LInfo l) - DelayInSeconds (LInfo l) / 50
         else DelayInSeconds (LInfo l) - DelayInSeconds (LInfo l) / 10) \<and>
      (if b = ZeroTicksAtMatch then DelayInSeconds (LInfo l)
         else if b = OptimalFound
         then DelayInSeconds (LInfo l) - DelayInSeconds (LInfo l) * 15 / 100
         else if b = ReduceAfterMatch
         then DelayInSeconds (LInfo l) - DelayInSeconds (LInfo l) / 50
         else DelayInSeconds (LInfo l) - DelayInSeconds (LInfo l) / 10)
        \<le> DelayInSeconds (LInfo l)) \<and>
   (0 \<le> DelayInSeconds (LInfo s0) \<and> search_loop s0 earlier = Running s1 \<and>
    state_of (search_loop s0 (earlier @ later)) = Some s2 \<longrightarrow>
      0 \<le> DelayInSeconds (LInfo s2) \<and>
      DelayInSeconds (LInfo s2) \<le> DelayInSeconds (LInfo s1) \<and>
      DelayInSeconds (LInfo s1) \<le> DelayInSeconds (LInfo s0))"
proof (intro conjI impI)
  assume "0 \<le> DelayInSeconds (LInfo l) \<and> loop_body l rate = Inr (l', b)"
  then have *: "0 \<le> DelayInSeconds (LInfo l)" "loop_body l rate = Inr (l', b)" by simp_all
  from loop_body_delay [OF *]
  show "0 \<le> DelayInSeconds (LInfo l')"
    and "DelayInSeconds (LInfo l') \<le>
        (if b = ZeroTicksAtMatch then DelayInSeconds (LInfo l)
         else if b = OptimalFound
         then DelayInSeconds (LInfo l) - DelayInSeconds (LInfo l) * 15 / 100
         else if b = ReduceAfterMatch
         then DelayInSeconds (LInfo l) - DelayInSeconds (LInfo l) / 50
         else DelayInSeconds (LInfo l) - DelayInSeconds (LInfo l) / 10)"
    and "(if b = ZeroTicksAtMatch then DelayInSeconds (LInfo l)
         else if b = OptimalFound
         then DelayInSeconds (LInfo l) - DelayInSeconds (LInfo l) * 15 / 100
         else if b = ReduceAfterMatch
         then DelayInSeconds (LInfo l) - DelayInSeconds (LInfo l) / 50
         else DelayInSeconds (LInfo l) - DelayInSeconds (LInfo l) / 10)
        \<le> DelayInSeconds (LInfo l)"
    by blast+
next
  assume a: "0 \<le> DelayInSeconds (LInfo s0) \<and> search_loop s0 earlier = Running s1 \<and>
    state_of (search_loop s0 (earlier @ later)) = Some s2"
  then have d0: "0 \<le> DelayInSeconds (LInfo s0)" and run: "search_loop s0 earlier = Running s1"
    and all: "state_of (search_loop s0 (earlier @ later)) = Some s2"
    by simp_all
  from run have s1: "state_of (search_loop s0 earlier) = Some s1" by simp
  from all run have s2: "state_of (search_loop s1 later) = Some s2"
    by (simp add: search_loop_append)
  from search_loop_delay [OF d0 s1]
  have d1: "0 \<le> DelayInSeconds (LInfo s1)" "DelayInSeconds (LInfo s1) \<le> DelayInSeconds (LInfo s0)"
    by simp_all
  from search_loop_delay [OF d1(1) s2] d1(2)
  show "0 \<le> DelayInSeconds (LInfo s2)"
    and "DelayInSeconds (LInfo s2) \<le> DelayInSeconds (LInfo s1)"
    and "DelayInSeconds (LInfo s1) \<le> DelayInSeconds (LInfo s0)"
    by simp_all
qed

theorem delay_non_increasing_witness:
  "(0 \<le> DelayInSeconds (LInfo (probe 0.000001 1 0)) \<and>
    (\<exists>l'. loop_body (probe 0.000001 1 0) 25 = Inr (l', ZeroTicksAfterMismatch) \<and>
       DelayInSeconds (LInfo l') = 0 \<and>
       DelayInSeconds (LInfo l') \<le>
         DelayInSeconds (LInfo (probe 0.000001 1 0)) -
         DelayInSeconds (LInfo (probe 0.000001 1 0)) / 10 \<and>
       DelayInSeconds (LInfo (probe 0.000001 1 0)) -
         DelayInSeconds (LInfo (probe 0.000001 1 0)) / 10
         \<le> DelayInSeconds (LInfo (probe 0.000001 1 0)))) \<and>
   (0 \<le> DelayInSeconds (LInfo (probe 0.0005 500 0)) \<and>
    (\<exists>s1 s2. search_loop (probe 0.0005 500 0) [30.05] = Running s1 \<and>
       state_of (search_loop (probe 0.0005 500 0) ([30.05] @ [25, 30])) = Some s2 \<and>
       DelayInSeconds (LInfo s1) = 0.00049 \<and> DelayInSeconds (LInfo s2) = 0.00043218 \<and>
       DelayInSeconds (LInfo s2) \<le> DelayInSeconds (LInfo s1) \<and>
       DelayInSeconds (LInfo s1) \<le> DelayInSeconds (LInfo (probe 0.0005 500 0))))"
proof (intro conjI)
  let ?l = "probe 0.000001 1 0"
  show d: "0 \<le> DelayInSeconds (LInfo ?l)"
    by (simp add: probe_def)
  obtain l' where body: "loop_body ?l 25 = Inr (l', ZeroTicksAfterMismatch)"
    and z: "DelayInSeconds (LInfo l') = 0"
    by (simp add: run_defs)
  from delay_non_increasing [THEN conjunct1, THEN mp, OF conjI [OF d body]]
  have "DelayInSeconds (LInfo l') \<le>
         DelayInSeconds (LInfo ?l) - DelayInSeconds (LInfo ?l) / 10 \<and>
       DelayInSeconds (LInfo ?l) - DelayInSeconds (LInfo ?l) / 10 \<le> DelayInSeconds (LInfo ?l)"
    by simp
  with body z show "\<exists>l'. loop_body ?l 25 = Inr (l', ZeroTicksAfterMismatch) \<and>
       DelayInSeconds (LInfo l') = 0 \<and>
       DelayInSeconds (LInfo l') \<le>
         DelayInSeconds (LInfo ?l) - DelayInSeconds (LInfo ?l) / 10 \<and>
       DelayInSeconds (LInfo ?l) - DelayInSeconds (LInfo ?l) / 10 \<le> DelayInSeconds (LInfo ?l)"
    by blast
next
  let ?s = "probe 0.0005 500 0"
  show d: "0 \<le> DelayInSeconds (LInfo ?s)"
    by (simp add: probe_def)
  obtain s1 where s1: "search_loop ?s [30.05] = Running s1"
    and d1: "DelayInSeconds (LInfo s1) = 0.00049"
    by (simp add: run_defs)
  obtain s2 where s2: "state_of (search_loop ?s ([30.05] @ [25, 30])) = Some s2"
    and d2: "DelayInSeconds (LInfo s2) = 0.00043218"
    by (simp add: run_defs)
  from delay_non_increasing [THEN conjunct2, THEN mp, OF conjI [OF d conjI [OF s1 s2]]]
  have "DelayInSeconds (LInfo s2) \<le> DelayInSeconds (LInfo s1) \<and>
      DelayInSeconds (LInfo s1) \<le> DelayInSeconds (LInfo ?s)"
    by blast
  with s1 s2 d1 d2 show "\<exists>s1 s2. search_loop ?s [30.05] = Running s1 \<and>
       state_of (search_loop ?s ([30.05] @ [25, 30])) = Some s2 \<and>
       DelayInSeconds (LInfo s1) = 0.00049 \<and> DelayInSeconds (LInfo s2) = 0.00043218 \<and>
       DelayInSeconds (LInfo s2) \<le> DelayInSeconds (LInfo s1) \<and>
       DelayInSeconds (LInfo s1) \<le> DelayInSeconds (LInfo ?s)"
    by blast
qed

subsection \<open>Runs of the loop\<close>





lemma store_solution_Inr:
  assumes "store_solution I R = Inr R'"
  shows "R' = (if Error I then R
     else R\<lparr>InterPacketDelayInTicks := (InterPacketDelayInTicks R)[Selection R := DelayTickVal I],
            InterPacketDelayInSec := (InterPacketDelayInSec R)[Selection R := DelayInSeconds I],
            ObtainedFrameRate := (ObtainedFrameRate R)[Selection R := ProcessFrameRate I]\<rparr>) \<and>
    (Error I \<or> (Selection R < length (InterPacketDelayInTicks R) \<and>
       Selection R < length (InterPacketDelayInSec R) \<and>
       Selection R < length (ObtainedFrameRate R)))"
  using assms
  by (auto simp add: store_solution_def vector_store_def split: if_splits sum.splits)

lemma FindInterPacketDelay_Inr:
  assumes "FindInterPacketDelay rates s = Some (Inr s')"
  shows "\<exists>l b rest.
    search_loop \<lparr>LInfo = Info s, Register = InterPacketDelay s, Done = False\<rparr> rates =
      Stopped l b rest \<and>
    store_solution (LInfo l) (Results s) = Inr (Results s') \<and>
    Info s' = LInfo l \<and> InterPacketDelay s' = Register l"
  using assms
  by (auto simp add: FindInterPacketDelay_def split: loop_result.splits sum.splits)

subsection \<open>The delay programmed on convergence\<close>



subsection \<open>The stored results\<close>

lemma AcquireReferenceFrameRate_Results:
  assumes "AcquireReferenceFrameRate frame_rate theoretical s = Inr s'"
  shows "Selection (Results s') = Selection (Results s) \<and>
    InterPacketDelayInTicks (Results s') = InterPacketDelayInTicks (Results s) \<and>
    InterPacketDelayInSec (Results s') = InterPacketDelayInSec (Results s) \<and>
    ObtainedFrameRate (Results s') = ObtainedFrameRate (Results s)"
  using AcquireReferenceFrameRate_Inr [OF assms] by auto

text \<open>
  C9. After the calculation for one pixel format, the entries of that format for the
  delay in ticks, the delay in seconds and the obtained frame rate hold the final values
  of the run if and only if the run ended with \<open>Error\<close> false; a failed run writes none
  of the three vectors, so the entries keep the zeros that \<open>EnumeratePixelFormats\<close>
  assigned.
\<close>

theorem results_written_iff_not_failed:
  assumes "calculate_format tick_freq frame_rate theoretical rates s = Some (Inr s')"
    and "InterPacketDelayInTicks (Results s) ! Selection (Results s) = 0"
    and "InterPacketDelayInSec (Results s) ! Selection (Results s) = 0"
    and "ObtainedFrameRate (Results s) ! Selection (Results s) = 0"
  shows
   "InterPacketDelayInTicks (Results s') =
      (if Error (Info s') then InterPacketDelayInTicks (Results s)
       else (InterPacketDelayInTicks (Results s))[Selection (Results s) := DelayTickVal (Info s')]) \<and>
    InterPacketDelayInSec (Results s') =
      (if Error (Info s') then InterPacketDelayInSec (Results s)
       else (InterPacketDelayInSec (Results s))[Selection (Results s) := DelayInSeconds (Info s')]) \<and>
    ObtainedFrameRate (Results s') =
      (if Error (Info s') then ObtainedFrameRate (Results s)
       else (ObtainedFrameRate (Results s))[Selection (Results s) := ProcessFrameRate (Info s')]) \<and>
    InterPacketDelayInTicks (Results s') ! Selection (Results s) =
      (if Error (Info s') then 0 else DelayTickVal (Info s')) \<and>
    InterPacketDelayInSec (Results s') ! Selection (Results s) =
      (if Error (Info s') then 0 else DelayInSeconds (Info s')) \<and>
    ObtainedFrameRate (Results s') ! Selection (Results s) =
      (if Error (Info s') then 0 else ProcessFrameRate (Info s'))"
proof -
  from assms(1) obtain s1 where
    acq: "AcquireReferenceFrameRate frame_rate theoretical
            (s\<lparr>Info := zero_PacketDelayInfo\<lparr>TickFreq := tick_freq\<rparr>\<rparr>) = Inr s1"
    and find: "FindInterPacketDelay rates s1 = Some (Inr s')"
    by (auto simp add: calculate_format_def Let_def split: sum.splits)
  from AcquireReferenceFrameRate_Results [OF acq] have
    same: "Selection (Results s1) = Selection (Results s)"
      "InterPacketDelayInTicks (Results s1) = InterPacketDelayInTicks (Results s)"
      "InterPacketDelayInSec (Results s1) = InterPacketDelayInSec (Results s)"
      "ObtainedFrameRate (Results s1) = ObtainedFrameRate (Results s)"
    by simp_all
  from FindInterPacketDelay_Inr [OF find] obtain l :: loop_state where
    store: "store_solution (LInfo l) (Results s1) = Inr (Results s')" and info: "Info s' = LInfo l"
    by auto
  from store_solution_Inr [OF store] info same have
    res: "Results s' = (if Error (Info s') then Results s1
     else (Results s1)\<lparr>InterPacketDelayInTicks :=
              (InterPacketDelayInTicks (Results s))[Selection (Results s) := DelayTickVal (Info s')],
            InterPacketDelayInSec :=
              (InterPacketDelayInSec (Results s))[Selection (Results s) := DelayInSeconds (Info s')],
            ObtainedFrameRate :=
              (ObtainedFrameRate (Results s))[Selection (Results s) := ProcessFrameRate (Info s')]\<rparr>)"
    and range: "Error (Info s') \<or> (Selection (Results s) < length (InterPacketDelayInTicks (Results s)) \<and>
       Selection (Results s) < length (InterPacketDelayInSec (Results s)) \<and>
       Selection (Results s) < length (ObtainedFrameRate (Results s)))"
    by simp_all
  show ?thesis
  proof (cases "Error (Info s')")
    case True
    with res same assms(2-4) show ?thesis by simp
  next
    case False
    with res range same show ?thesis by simp
  qed
qed

theorem results_written_iff_not_failed_witness:
  "(\<exists>s'. calculate_format 1000000 30 0.0005 [30.05, 29.96, 30] (camera 0) = Some (Inr s') \<and>
      \<not> Error (Info s') \<and>
      InterPacketDelayInTicks (Results s') = [408, 0] \<and>
      InterPacketDelayInSec (Results s') = [0.00040817, 0] \<and>
      ObtainedFrameRate (Results s') = [30, 0]) \<and>
   (\<exists>s'. calculate_format 1000000 30 0.000001 [25] (camera 0) = Some (Inr s') \<and>
      Error (Info s') \<and>
      InterPacketDelayInTicks (Results s') = [0, 0] \<and>
      InterPacketDelayInSec (Results s') = [0, 0] \<and>
      ObtainedFrameRate (Results s') = [0, 0])"
proof (intro conjI)
  have z: "InterPacketDelayInTicks (Results (camera 0)) ! Selection (Results (camera 0)) = 0"
    "InterPacketDelayInSec (Results (camera 0)) ! Selection (Results (camera 0)) = 0"
    "ObtainedFrameRate (Results (camera 0)) ! Selection (Results (camera 0)) = 0"
    by (simp_all add: run_defs)
  have v: "InterPacketDelayInTicks (Results (camera 0)) = [0, 0]"
    "InterPacketDelayInSec (Results (camera 0)) = [0, 0]"
    "ObtainedFrameRate (Results (camera 0)) = [0, 0]"
    "Selection (Results (camera 0)) = 0"
    by (simp_all add: run_defs)
  obtain s' where ok: "calculate_format 1000000 30 0.0005 [30.05, 29.96, 30] (camera 0) =
      Some (Inr s')"
    and ok_info: "\<not> Error (Info s')" "DelayTickVal (Info s') = 408"
      "DelayInSeconds (Info s') = 0.00040817" "ProcessFrameRate (Info s') = 30"
    by (simp add: run_defs)
  from results_written_iff_not_failed [OF ok z] ok_info v
  have "InterPacketDelayInTicks (Results s') = [408, 0] \<and>
      InterPacketDelayInSec (Results s') = [0.00040817, 0] \<and>
      ObtainedFrameRate (Results s') = [30, 0]"
    by simp
  with ok ok_info(1)
  show "\<exists>s'. calculate_format 1000000 30 0.0005 [30.05, 29.96, 30] (camera 0) = Some (Inr s') \<and>
      \<not> Error (Info s') \<and>
      InterPacketDelayInTicks (Results s') = [408, 0] \<and>
      InterPacketDelayInSec (Results s') = [0.00040817, 0] \<and>
      ObtainedFrameRate (Results s') = [30, 0]"
    by blast
  obtain s'' where bad: "calculate_format 1000000 30 0.000001 [25] (camera 0) = Some (Inr s'')"
    and bad_info: "Error (Info s'')"
    by (simp add: run_defs)
  from results_written_iff_not_failed [OF bad z] bad_info v
  have "InterPacketDelayInTicks (Results s'') = [0, 0] \<and>
      InterPacketDelayInSec (Results s'') = [0, 0] \<and>
      ObtainedFrameRate (Results s'') = [0, 0]"
    by simp
  with bad bad_info
  show "\<exists>s'. calculate_format 1000000 30 0.000001 [25] (camera 0) = Some (Inr s') \<and>
      Error (Info s') \<and>
      InterPacketDelayInTicks (Results s') = [0, 0] \<and>
      InterPacketDelayInSec (Results s') = [0, 0] \<and>
      ObtainedFrameRate (Results s') = [0, 0]"
    by blast
qed

text \<open>The reference frame rate of the format is stored by \<open>AcquireReferenceFrameRate\<close>, whether
  the run fails or not.\<close>

lemma ReferenceFrameRate_written:
  assumes "calculate_format tick_freq frame_rate theoretical rates s = Some (Inr s')"
  shows "ReferenceFrameRate (Results s') =
    (ReferenceFrameRate (Results s))[Selection (Results s) := frame_rate]"
proof -
  from assms obtain s1 where
    acq: "AcquireReferenceFrameRate frame_rate theoretical
            (s\<lparr>Info := zero_PacketDelayInfo\<lparr>TickFreq := tick_freq\<rparr>\<rparr>) = Inr s1"
    and find: "FindInterPacketDelay rates s1 = Some (Inr s')"
    by (auto simp add: calculate_format_def Let_def split: sum.splits)
  from AcquireReferenceFrameRate_Inr [OF acq] have
    r1: "ReferenceFrameRate (Results s1) =
      (ReferenceFrameRate (Results s))[Selection (Results s) := frame_rate]"
    by auto
  from FindInterPacketDelay_Inr [OF find] obtain l :: loop_state where
    store: "store_solution (LInfo l) (Results s1) = Inr (Results s')"
    by auto
  from store_solution_Inr [OF store] have
    "ReferenceFrameRate (Results s') = ReferenceFrameRate (Results s1)"
    by (simp split: if_splits)
  with r1 show ?thesis by simp
qed

subsection \<open>The scenario of three matches\<close>

text \<open>
  C3. Tick frequency 1000000, reference frame rate 30.0, theoretical delay 0.0005, and
  obtained frame rates 30.05, 29.96, 30.0: three matches in a row, the delay reduced by a
  fiftieth after the first (0.00049) and the second (0.0004802), the loop ended by the
  third with delay 0.0004802 * 0.85 = 0.00040817 and 408 ticks.
\<close>

theorem scenario_three_matches:
  "AcquireReferenceFrameRate 30 0.0005 (camera 1000000) = Inr (measured_camera 0.0005 500) \<and>
   IsEqual 30 30.05 \<and> IsEqual 30 29.96 \<and> IsEqual 30 30.0 \<and>
   (\<exists>s1 s2 s3.
      search_loop (probe 0.0005 500 0) [30.05] = Running s1 \<and>
      EqualityCounter (LInfo s1) = 1 \<and> DelayInSeconds (LInfo s1) = 0.00049 \<and>
      DelayInSeconds (LInfo s1) = 0.0005 - 0.0005 / 50 \<and>
      search_loop (probe 0.0005 500 0) [30.05, 29.96] = Running s2 \<and>
      EqualityCounter (LInfo s2) = 2 \<and> DelayInSeconds (LInfo s2) = 0.0004802 \<and>
      DelayInSeconds (LInfo s2) = 0.00049 - 0.00049 / 50 \<and>
      search_loop (probe 0.0005 500 0) [30.05, 29.96, 30.0] = Stopped s3 OptimalFound [] \<and>
      EqualityCounter (LInfo s3) = 3 \<and> DelayInSeconds (LInfo s3) = 0.00040817 \<and>
      DelayInSeconds (LInfo s3) = 0.0004802 * 0.85 \<and>
      DelayTickVal (LInfo s3) = 408 \<and> DelayTickVal (LInfo s3) = \<lfloor>0.00040817 * 1000000 :: real\<rfloor> \<and>
      Register s3 = 408 \<and> \<not> Error (LInfo s3)) \<and>
   (\<exists>s'. calculate_format 1000000 30 0.0005 [30.05, 29.96, 30.0] (camera 0) = Some (Inr s') \<and>
      DelayInSeconds (Info s') = 0.00040817 \<and> DelayTickVal (Info s') = 408 \<and>
      InterPacketDelay s' = 408 \<and>
      InterPacketDelayInTicks (Results s') = [408, 0] \<and>
      InterPacketDelayInSec (Results s') = [0.00040817, 0] \<and>
      ReferenceFrameRate (Results s') = [30, 0] \<and>
      ObtainedFrameRate (Results s') = [30, 0])"
  by (simp add: run_defs)

subsection \<open>Convergence and the streak\<close>

















end
